theory Spec2Isabelle
  imports Complex_Main
begin

section \<open>Python values shared by the embedded functions\<close>

text \<open>
  Exceptions are values. The constructors are the Python exception classes that the
  embedded functions raise themselves; \<open>Raised\<close> stands for any other exception that a
  remote collaborator (pipeline service, model registry, prediction endpoint) raises and
  that the code lets through.
\<close>

datatype py_error =
    ValueError string
  | RuntimeError string
  | TypeError string
  | KeyError string
  | IndexError string
  | AttributeError string
  | Raised string

text \<open>
  Every call of the tuning code that leaves the process is recorded in a trace, in the
  order the code performs them; so is its one read of an output parameter
  (\<open>OutputParameterRead\<close>, the only event that is not a remote call).
\<close>

datatype event =
    JobWait string
  | OutputParameterRead string
  | ModelFetch string
  | ModelDeploy string
  | GetModelInfo string
  | LaunchTuningJob string

text \<open>
  \<open>str.strip()\<close> without arguments removes leading and trailing whitespace. A
  \<open>char\<close> is read as a code point below 256; these are the code points in that range
  for which \<open>str.isspace\<close> holds.
\<close>

definition isspace :: "char \<Rightarrow> bool" where
  "isspace c = ((of_char c :: nat) \<in> set [9, 10, 11, 12, 13, 28, 29, 30, 31, 32, 133, 160])"

definition strip :: "string \<Rightarrow> string" where
  "strip s = rev (dropWhile isspace (rev (dropWhile isspace s)))"

text \<open>\<open>s.rpartition(sep)\<close> for a one-character separator.\<close>

definition rpartition :: "char \<Rightarrow> string \<Rightarrow> string \<times> string \<times> string" where
  "rpartition sep s =
     (case dropWhile (\<lambda>c. c \<noteq> sep) (rev s) of
        [] \<Rightarrow> ([], [], s)
      | _ # before \<Rightarrow> (rev before, [sep], rev (takeWhile (\<lambda>c. c \<noteq> sep) (rev s))))"

section \<open>Tuned models: \<open>_TunableModelMixin.get_tuned_model\<close>\<close>

definition TUNING_BASE_MODEL_ID_LABEL_KEY :: string where
  "TUNING_BASE_MODEL_ID_LABEL_KEY = ''google-vertex-llm-tuning-base-model-id''"

definition get_model_id_from_tuning_model_id :: "string \<Rightarrow> string" where
  "get_model_id_from_tuning_model_id tuning_id =
     (case rpartition CHR ''-'' tuning_id of
        (model_name, _, version) \<Rightarrow>
          ''publishers/google/models/'' @ model_name @ ''@'' @ version)"

text \<open>A model of the registry, as \<open>aiplatform.Model(name)\<close> fetches it.\<close>

record vertex_model =
  vm_resource_name :: string
  vm_labels :: "string \<rightharpoonup> string"
  vm_deployed_models :: "string list"  \<comment> \<open>the \<open>endpoint\<close> of each deployment\<close>

record model_info =
  mi_tuning_pipeline_uri :: "string option"
  mi_tuning_model_id :: string
  mi_interface_class :: string
  mi_publisher_model_resource :: string

text \<open>A \<open>_LanguageModel\<close> object: its class, \<open>_model_id\<close> and \<open>_endpoint_name\<close>.\<close>

record language_model =
  lm_class :: string
  lm_model_id :: string
  lm_endpoint_name :: string

text \<open>
  The collaborators outside this module: the model registry, deployment, the model
  garden lookup \<open>_get_model_info\<close>, the launch-stage validation,
  \<open>PipelineJob.wait\<close>, which blocks until the job is complete and refreshes the job
  resource, or raises, the resource-name parser of \<open>aiplatform.Tensorboard\<close>, and the
  submission of the tuning pipeline (\<open>_launch_tuning_job\<close>: staging bucket, upload of
  the training data, \<open>PipelineJob.submit\<close>).
\<close>

datatype param_value = IntValue int | FloatValue real | StrValue string | BoolValue bool

datatype training_data = DataUri string | DataFrame | UnsupportedData

record launch_request =
  lr_training_data :: training_data
  lr_model_id :: string
  lr_tuning_pipeline_uri :: string
  lr_tuning_parameters :: "(string \<times> param_value) list"
  lr_model_display_name :: "string option"
  lr_tuning_job_location :: "string option"

record task_detail =
  td_schema_title :: string          \<comment> \<open>\<open>task_detail.execution.schema_title\<close>\<close>
  td_metadata :: "string \<rightharpoonup> string option"
    \<comment> \<open>\<open>task_detail.execution.metadata\<close>; \<open>Some s\<close> is a string value, \<open>None\<close> a value of
       any other kind (number, boolean, null, list, struct)\<close>

record pipeline_job =
  job_name :: string
  task_details :: "task_detail list"  \<comment> \<open>\<open>gca_resource.job_detail.task_details\<close>\<close>

record services =
  sv_fetch_model :: "string \<Rightarrow> py_error + vertex_model"
  sv_deploy :: "vertex_model \<Rightarrow> py_error + string"
  sv_get_model_info :: "string \<Rightarrow> string \<Rightarrow> py_error + model_info"
  sv_validate_launch_stage :: "string \<Rightarrow> string \<Rightarrow> py_error option"
  sv_wait :: "pipeline_job \<Rightarrow> py_error + pipeline_job"
  sv_parse_resource_name :: "string \<Rightarrow> string \<rightharpoonup> string"
  sv_launch_tuning_job :: "launch_request \<Rightarrow> py_error + pipeline_job"

text \<open>
  The class method, called on class \<open>cls\<close>. Lines follow the source: fetch the model,
  require the base-model label, take the endpoint of the first deployment or deploy,
  look the base model up, validate the launch stage, build the interface class.
\<close>

definition tuned_model_endpoint ::
  "services \<Rightarrow> vertex_model \<Rightarrow> (py_error + string) \<times> event list" where
  "tuned_model_endpoint sv tuned_vertex_model =
     (case vm_deployed_models tuned_vertex_model of
        [] \<Rightarrow> (sv_deploy sv tuned_vertex_model, [ModelDeploy (vm_resource_name tuned_vertex_model)])
      | d # _ \<Rightarrow> (Inr d, []))"

definition get_tuned_model_cls ::
  "services \<Rightarrow> string \<Rightarrow> string \<Rightarrow> (py_error + language_model) \<times> event list" where
  "get_tuned_model_cls sv cls tuned_model_name =
     (case sv_fetch_model sv tuned_model_name of
        Inl e \<Rightarrow> (Inl e, [ModelFetch tuned_model_name])
      | Inr tuned_vertex_model \<Rightarrow>
         (case vm_labels tuned_vertex_model TUNING_BASE_MODEL_ID_LABEL_KEY of
            None \<Rightarrow>
              (Inl (ValueError (''The provided model '' @ tuned_model_name
                                @ '' does not have a base model ID.'')),
               [ModelFetch tuned_model_name])
          | Some tuning_id \<Rightarrow>
             (case tuned_model_endpoint sv tuned_vertex_model of
                (Inl e, deploy_calls) \<Rightarrow> (Inl e, ModelFetch tuned_model_name # deploy_calls)
              | (Inr endpoint, deploy_calls) \<Rightarrow>
                 (let base_model_id = get_model_id_from_tuning_model_id tuning_id;
                      calls = ModelFetch tuned_model_name # deploy_calls
                              @ [GetModelInfo base_model_id]
                  in case sv_get_model_info sv base_model_id cls of
                       Inl e \<Rightarrow> (Inl e, calls)
                     | Inr info \<Rightarrow>
                        (case sv_validate_launch_stage sv cls (mi_publisher_model_resource info) of
                           Some e \<Rightarrow> (Inl e, calls)
                         | None \<Rightarrow>
                            (Inr \<lparr> lm_class = mi_interface_class info,
                                   lm_model_id = base_model_id,
                                   lm_endpoint_name = endpoint \<rparr>, calls))))))"

section \<open>Tuning jobs: \<open>_LanguageModelTuningJob\<close>\<close>

text \<open>The fields \<open>_base_model\<close>, \<open>_job\<close> and \<open>_model\<close> of the job handle.\<close>

record tuning_job =
  tj_base_model :: language_model
  tj_job :: pipeline_job
  tj_model :: "language_model option"

definition tuning_job_init :: "language_model \<Rightarrow> pipeline_job \<Rightarrow> tuning_job" where
  "tuning_job_init base_model j = \<lparr> tj_base_model = base_model, tj_job = j, tj_model = None \<rparr>"

definition root_pipeline_tasks :: "pipeline_job \<Rightarrow> task_detail list" where
  "root_pipeline_tasks j = filter (\<lambda>task_detail. td_schema_title task_detail = ''system.Run'') (task_details j)"

definition output_key :: string where
  "output_key = ''output:model_resource_name''"

text \<open>
  \<open>get_tuned_model\<close> of the job handle. The result is the returned model or the raised
  exception, the handle after the call, and the trace of the call.
\<close>

definition get_tuned_model ::
  "services \<Rightarrow> tuning_job \<Rightarrow> (py_error + language_model) \<times> tuning_job \<times> event list" where
  "get_tuned_model sv h =
     (case tj_model h of
        Some m \<Rightarrow> (Inr m, h, [])
      | None \<Rightarrow>
         (case sv_wait sv (tj_job h) of
            Inl e \<Rightarrow> (Inl e, h, [JobWait (job_name (tj_job h))])
          | Inr j \<Rightarrow>
             (let h1 = h \<lparr> tj_job := j \<rparr>; waited = [JobWait (job_name (tj_job h))] in
              if length (root_pipeline_tasks j) \<noteq> 1 then
                (Inl (RuntimeError (''Failed to get the model name from the tuning pipeline: ''
                                    @ job_name j)), h1, waited)
              else
                (let root_pipeline_task = hd (root_pipeline_tasks j);
                     reads = waited @ [OutputParameterRead output_key]
                 in case td_metadata root_pipeline_task output_key of
                      None \<Rightarrow> (Inl (KeyError output_key), h1, reads)
                    | Some None \<Rightarrow> (Inl (AttributeError ''strip''), h1, reads)
                    | Some (Some v) \<Rightarrow>
                       (let vertex_model_name = strip v in
                        case get_tuned_model_cls sv (lm_class (tj_base_model h)) vertex_model_name of
                          (Inl e, calls) \<Rightarrow> (Inl e, h1, reads @ calls)
                        | (Inr m, calls) \<Rightarrow>
                            (Inr m, h1 \<lparr> tj_model := Some m \<rparr>, reads @ calls))))))"

section \<open>Tuning submission: \<open>tune_model\<close> and \<open>_tune_model\<close>\<close>

definition TUNING_LOCATIONS :: "string list" where
  "TUNING_LOCATIONS = [''europe-west4'', ''us-central1'']"

definition TUNED_MODEL_LOCATION :: string where
  "TUNED_MODEL_LOCATION = ''us-central1''"

definition tuning_location_message :: string where
  "tuning_location_message =
     ''Please specify the tuning job location (`tuning_job_location`).''
     @ ''Tuning is supported in the following locations: ('europe-west4', 'us-central1')''"

definition tuned_model_location_message :: string where
  "tuned_model_location_message =
     ''Model deployment is only supported in the following locations: tuned_model_location=''
     @ [CHR 0x22] @ TUNED_MODEL_LOCATION @ [CHR 0x22]"

text \<open>
  \<open>_tune_model\<close> of \<open>_TunableModelMixin\<close>. The two location checks come first; only
  then does the code look the model up and launch the pipeline. A location is
  \<open>Optional[str]\<close>: \<open>None\<close> is in no tuple and differs from every string.
\<close>

definition tune_model_internal ::
  "services \<Rightarrow> language_model \<Rightarrow> training_data \<Rightarrow> (string \<times> param_value) list
     \<Rightarrow> string option \<Rightarrow> string option \<Rightarrow> string option
     \<Rightarrow> (py_error + tuning_job) \<times> event list" where
  "tune_model_internal sv self data tuning_parameters tuning_job_location tuned_model_location
       model_display_name =
     (if tuning_job_location \<notin> Some ` set TUNING_LOCATIONS then
        (Inl (ValueError tuning_location_message), [])
      else if tuned_model_location \<noteq> Some TUNED_MODEL_LOCATION then
        (Inl (ValueError tuned_model_location_message), [])
      else
        (case sv_get_model_info sv (lm_model_id self) (lm_class self) of
           Inl e \<Rightarrow> (Inl e, [GetModelInfo (lm_model_id self)])
         | Inr info \<Rightarrow>
            (case mi_tuning_pipeline_uri info of
               None \<Rightarrow>
                 (Inl (RuntimeError (''The '' @ lm_model_id self @ '' model does not support tuning'')),
                  [GetModelInfo (lm_model_id self)])
             | Some uri \<Rightarrow>
                 if uri = [] then
                   (Inl (RuntimeError (''The '' @ lm_model_id self @ '' model does not support tuning'')),
                    [GetModelInfo (lm_model_id self)])
                 else
                   (case sv_launch_tuning_job sv
                           \<lparr> lr_training_data = data,
                             lr_model_id = mi_tuning_model_id info,
                             lr_tuning_pipeline_uri = uri,
                             lr_tuning_parameters = tuning_parameters,
                             lr_model_display_name = model_display_name,
                             lr_tuning_job_location = tuning_job_location \<rparr> of
                      Inl e \<Rightarrow>
                        (Inl e, [GetModelInfo (lm_model_id self),
                                 LaunchTuningJob (mi_tuning_model_id info)])
                    | Inr pipeline_job \<Rightarrow>
                        (Inr (tuning_job_init self pipeline_job),
                         [GetModelInfo (lm_model_id self),
                          LaunchTuningJob (mi_tuning_model_id info)])))))"

text \<open>
  \<open>TuningEvaluationSpec\<close>. Python does not enforce the annotations, and the code
  checks the classes itself: \<open>EvalOther\<close> and \<open>TensorboardOther\<close> are values of any
  other class. A \<open>Tensorboard\<close> object is its \<open>location\<close> and \<open>resource_name\<close>.
\<close>

datatype evaluation_data = EvalString string | EvalOther

datatype tensorboard = TensorboardObject string string | TensorboardString string | TensorboardOther

record tuning_evaluation_spec =
  es_evaluation_data :: evaluation_data
  es_evaluation_interval :: "int option"
  es_enable_early_stopping :: "bool option"
  es_tensorboard :: "tensorboard option"

definition startswith :: "string \<Rightarrow> string \<Rightarrow> bool" where
  "startswith s p = (take (length p) s = p)"

definition put_if_given :: "string \<Rightarrow> 'a option \<Rightarrow> ('a \<Rightarrow> param_value)
    \<Rightarrow> (string \<times> param_value) list \<Rightarrow> (string \<times> param_value) list" where
  "put_if_given k v wrap ps = (case v of None \<Rightarrow> ps | Some x \<Rightarrow> ps @ [(k, wrap x)])"

text \<open>The part of \<open>tune_model\<close> that reads the evaluation specification.\<close>

definition evaluation_parameters ::
  "services \<Rightarrow> tuning_evaluation_spec \<Rightarrow> string option \<Rightarrow> (string \<times> param_value) list
     \<Rightarrow> py_error + (string \<times> param_value) list" where
  "evaluation_parameters sv eval_spec tuning_job_location ps =
     (case es_evaluation_data eval_spec of
        EvalOther \<Rightarrow> Inl (TypeError ''evaluation_data should be a URI string'')
      | EvalString uri \<Rightarrow>
         if \<not> startswith uri ''gs://'' then Inl (ValueError ''evaluation_data should be a GCS URI'')
         else
          (let ps1 = ps @ [(''evaluation_data_uri'', StrValue uri)];
               ps2 = put_if_given ''evaluation_interval'' (es_evaluation_interval eval_spec) IntValue ps1;
               ps3 = put_if_given ''enable_early_stopping'' (es_enable_early_stopping eval_spec)
                       BoolValue ps2
           in case es_tensorboard eval_spec of
                None \<Rightarrow> Inr ps3
              | Some (TensorboardObject location name) \<Rightarrow>
                  if Some location \<noteq> tuning_job_location then
                    Inl (ValueError ''The Tensorboard must be in the same location as the tuning job.'')
                  else Inr (ps3 @ [(''tensorboard_resource_id'', StrValue name)])
              | Some (TensorboardString name) \<Rightarrow>
                  (case sv_parse_resource_name sv name ''location'' of
                     None \<Rightarrow> Inl (KeyError ''location'')
                   | Some location \<Rightarrow>
                      if Some location \<noteq> tuning_job_location then
                        Inl (ValueError ''The Tensorboard must be in the same location as the tuning job.'')
                      else Inr (ps3 @ [(''tensorboard_resource_id'', StrValue name)]))
              | Some TensorboardOther \<Rightarrow> Inl (TypeError ''tensorboard should be a URI string'')))"

text \<open>
  \<open>tune_model\<close> of \<open>_TunableModelMixin\<close>: it collects the tuning parameters in the order
  of the source and hands over to \<open>_tune_model\<close>. An empty \<open>default_context\<close> is falsy.
\<close>

definition tune_model ::
  "services \<Rightarrow> language_model \<Rightarrow> training_data \<Rightarrow> int option \<Rightarrow> real option \<Rightarrow> real option
     \<Rightarrow> string option \<Rightarrow> string option \<Rightarrow> string option \<Rightarrow> tuning_evaluation_spec option
     \<Rightarrow> string option \<Rightarrow> (py_error + tuning_job) \<times> event list" where
  "tune_model sv self data train_steps learning_rate learning_rate_multiplier
       tuning_job_location tuned_model_location model_display_name tuning_evaluation_spec
       default_context =
     (let ps1 = put_if_given ''train_steps'' train_steps IntValue [];
          ps2 = put_if_given ''learning_rate'' learning_rate FloatValue ps1;
          ps3 = put_if_given ''learning_rate_multiplier'' learning_rate_multiplier FloatValue ps2
      in case (case tuning_evaluation_spec of
                 None \<Rightarrow> Inr ps3
               | Some eval_spec \<Rightarrow> evaluation_parameters sv eval_spec tuning_job_location ps3) of
           Inl e \<Rightarrow> (Inl e, [])
         | Inr ps4 \<Rightarrow>
            (let ps5 = (case default_context of
                          None \<Rightarrow> ps4
                        | Some c \<Rightarrow> if c = [] then ps4 else ps4 @ [(''default_context'', StrValue c)])
             in tune_model_internal sv self data ps5 tuning_job_location tuned_model_location
                  model_display_name))"

fun is_argument_error :: "py_error \<Rightarrow> bool" where
  "is_argument_error (ValueError m) = True"
| "is_argument_error (TypeError m) = True"
| "is_argument_error (KeyError m) = True"
| "is_argument_error e = False"

section \<open>Persistent resources: the reconciler\<close>

text \<open>
  Only the unit tests of \<open>persistent_resource_util\<close> are among the sources; the data
  below follows the specification's data model and the values the tests build.
\<close>

datatype resource_state = PROVISIONING | RUNNING | ERROR | STOPPING | STOPPED

record resource_pool =
  machine_type :: string
  replica_count :: int
  boot_disk_type :: string
  boot_disk_size_gb :: int

record persistent_resource =
  pr_state :: resource_state
  pr_resource_pools :: "resource_pool list"

text \<open>
  What the reconciler can raise: the exceptions of the remote transport (a not-found
  condition, or anything else), and its own two errors. A provisioning error carries
  its cause.
\<close>

datatype reconcile_error =
    NotFound string
  | TransportError string
  | PreconditionError string
  | ProvisioningError string reconcile_error

record create_request =
  cr_name :: string
  cr_resource_pools :: "resource_pool list"  \<comment> \<open>the resource specification\<close>

datatype resource_call = GetResource string | CreateResource create_request

record resource_service =
  get_persistent_resource :: "string \<Rightarrow> reconcile_error + persistent_resource"
  create_resource :: "create_request \<Rightarrow> reconcile_error + persistent_resource"

fun is_not_found :: "reconcile_error \<Rightarrow> bool" where
  "is_not_found (NotFound m) = True"
| "is_not_found e = False"

fun is_create :: "resource_call \<Rightarrow> bool" where
  "is_create (CreateResource r) = True"
| "is_create c = False"

text \<open>
  Modelled from the spec: the fixed default shape of a created resource, which
  \<open>persistent_resource_util\<close> (not among the sources) defines. One machine pool: one
  replica, a fixed standard machine type, a fixed SSD boot disk of fixed size; the
  values are those of the test's expected request.
\<close>

definition default_resource_pool :: resource_pool where
  "default_resource_pool =
     \<lparr> machine_type = ''n1-standard-4'', replica_count = 1,
       boot_disk_type = ''pd-ssd'', boot_disk_size_gb = 100 \<rparr>"

definition default_resource_pools :: "resource_pool list" where
  "default_resource_pools = [default_resource_pool]"

text \<open>
  Modelled from the spec: \<open>check_persistent_resource\<close> of \<open>persistent_resource_util\<close>
  (not among the sources), steps 1, 2, 3 and 5 of the reconciler's contract. Query the
  remote state for the name; found and running: true; found and not running: fail with
  the precondition error, which says that the existing resource is unusable and a
  different name must be chosen; not found: false; any other error of the lookup:
  propagate unchanged.
\<close>

definition not_running_message :: "string \<Rightarrow> string" where
  "not_running_message name =
     ''The existing cluster `'' @ name
     @ ''` isn't running, please specify a different cluster_name.''"

definition check_persistent_resource ::
  "resource_service \<Rightarrow> string \<Rightarrow> (reconcile_error + bool) \<times> resource_call list" where
  "check_persistent_resource rs name =
     (case get_persistent_resource rs name of
        Inl e \<Rightarrow> if is_not_found e then (Inr False, [GetResource name])
                 else (Inl e, [GetResource name])
      | Inr response \<Rightarrow>
          if pr_state response \<noteq> RUNNING then
            (Inl (PreconditionError (not_running_message name)), [GetResource name])
          else (Inr True, [GetResource name]))"

text \<open>
  Modelled from the spec: \<open>create_persistent_resource\<close> of \<open>persistent_resource_util\<close>
  (not among the sources), step 4 of the contract. Attempt creation with the fixed
  default shape; any failure during creation is wrapped and raised again as a
  provisioning error with the underlying cause attached.
\<close>

definition create_persistent_resource ::
  "resource_service \<Rightarrow> string \<Rightarrow> (reconcile_error + unit) \<times> resource_call list" where
  "create_persistent_resource rs name =
     (let request = \<lparr> cr_name = name, cr_resource_pools = default_resource_pools \<rparr> in
      case create_resource rs request of
        Inl e \<Rightarrow> (Inl (ProvisioningError ''Failed in cluster creation due to: '' e),
                  [CreateResource request])
      | Inr created \<Rightarrow> (Inr (), [CreateResource request]))"

text \<open>
  Modelled from the spec: the reconciliation \<open>ensure(name)\<close>, check then act. Its caller
  in the executor is not among the sources.
\<close>

definition ensure ::
  "resource_service \<Rightarrow> string \<Rightarrow> (reconcile_error + unit) \<times> resource_call list" where
  "ensure rs name =
     (case check_persistent_resource rs name of
        (Inl e, calls) \<Rightarrow> (Inl e, calls)
      | (Inr True, calls) \<Rightarrow> (Inr (), calls)
      | (Inr False, calls) \<Rightarrow>
          (case create_persistent_resource rs name of
             (r, created) \<Rightarrow> (r, calls @ created)))"

definition running_resource :: persistent_resource where
  "running_resource = \<lparr> pr_state = RUNNING, pr_resource_pools = default_resource_pools \<rparr>"

definition test_cluster :: string where
  "test_cluster = ''projects/test-project/locations/us-central1/persistentResources/test-cluster''"

definition backend :: "(reconcile_error + persistent_resource)
    \<Rightarrow> (reconcile_error + persistent_resource) \<Rightarrow> resource_service" where
  "backend found created =
     \<lparr> get_persistent_resource = (\<lambda>n. found), create_resource = (\<lambda>r. created) \<rparr>"

section \<open>Chat sessions: \<open>_ChatSessionBase\<close>\<close>

text \<open>
  A prediction is a dictionary decoded from the service's answer: null, booleans,
  numbers, strings, lists and dictionaries with string keys.
\<close>

datatype json =
    JNull
  | JBool bool
  | JNum real
  | JStr string
  | JList "json list"
  | JDict "(string \<times> json) list"

text \<open>Truth value testing, as \<open>if x\<close> and \<open>x or y\<close> apply it.\<close>

fun truthy :: "json \<Rightarrow> bool" where
  "truthy JNull = False"
| "truthy (JBool b) = b"
| "truthy (JNum x) = (x \<noteq> 0)"
| "truthy (JStr s) = (s \<noteq> [])"
| "truthy (JList xs) = (xs \<noteq> [])"
| "truthy (JDict kvs) = (kvs \<noteq> [])"

text \<open>Indexing a sequence: a negative index counts from the end.\<close>

definition list_index :: "'a list \<Rightarrow> int \<Rightarrow> 'a option" where
  "list_index xs i =
     (if 0 \<le> i \<and> i < int (length xs) then Some (xs ! nat i)
      else if i < 0 \<and> - i \<le> int (length xs) then Some (xs ! nat (int (length xs) + i))
      else None)"

datatype py_key = IntKey int | StrKey string

text \<open>\<open>x[k]\<close>, with the exception Python raises for each kind of \<open>x\<close> and \<open>k\<close>.\<close>

fun getitem :: "json \<Rightarrow> py_key \<Rightarrow> py_error + json" where
  "getitem (JList xs) (IntKey i) =
     (case list_index xs i of
        None \<Rightarrow> Inl (IndexError ''list index out of range'')
      | Some v \<Rightarrow> Inr v)"
| "getitem (JList xs) (StrKey k) = Inl (TypeError ''list indices must be integers or slices, not str'')"
| "getitem (JDict kvs) (StrKey k) =
     (case map_of kvs k of None \<Rightarrow> Inl (KeyError k) | Some v \<Rightarrow> Inr v)"
| "getitem (JDict kvs) (IntKey i) = Inl (KeyError ''<int>'')"
| "getitem (JStr s) (IntKey i) =
     (case list_index s i of
        None \<Rightarrow> Inl (IndexError ''string index out of range'')
      | Some c \<Rightarrow> Inr (JStr [c]))"
| "getitem (JStr s) (StrKey k) = Inl (TypeError ''string indices must be integers'')"
| "getitem v k = Inl (TypeError ''object is not subscriptable'')"

text \<open>\<open>x.get(k, default)\<close>: only a dictionary has the method.\<close>

fun dict_get :: "json \<Rightarrow> string \<Rightarrow> json \<Rightarrow> py_error + json" where
  "dict_get (JDict kvs) k d = Inr (case map_of kvs k of None \<Rightarrow> d | Some v \<Rightarrow> v)"
| "dict_get v k d = Inl (AttributeError ''get'')"

text \<open>Iteration, as \<open>zip\<close> needs it: a dictionary yields its keys, a string its characters.\<close>

fun py_iter :: "json \<Rightarrow> py_error + json list" where
  "py_iter (JList xs) = Inr xs"
| "py_iter (JStr s) = Inr (map (\<lambda>c. JStr [c]) s)"
| "py_iter (JDict kvs) = Inr (map (\<lambda>kv. JStr (fst kv)) kvs)"
| "py_iter v = Inl (TypeError ''object is not iterable'')"

fun hashable :: "json \<Rightarrow> bool" where
  "hashable (JList xs) = False"
| "hashable (JDict kvs) = False"
| "hashable v = True"

text \<open>
  \<open>dict(pairs)\<close>: a later pair replaces the value of an equal key and keeps the key's
  place; as keys, \<open>True\<close> equals \<open>1\<close> and \<open>False\<close> equals \<open>0\<close>.
\<close>

fun key_norm :: "json \<Rightarrow> json" where
  "key_norm (JBool b) = JNum (if b then 1 else 0)"
| "key_norm v = v"

fun dict_put :: "(json \<times> json) list \<Rightarrow> json \<Rightarrow> json \<Rightarrow> (json \<times> json) list" where
  "dict_put [] k v = [(k, v)]"
| "dict_put ((k', v') # d) k v =
     (if key_norm k' = key_norm k then (k', v) # d else (k', v') # dict_put d k v)"

definition py_dict :: "(json \<times> json) list \<Rightarrow> py_error + (json \<times> json) list" where
  "py_dict pairs =
     (if list_all (\<lambda>kv. hashable (fst kv)) pairs
      then Inr (foldl (\<lambda>d kv. dict_put d (fst kv) (snd kv)) [] pairs)
      else Inl (TypeError ''unhashable type''))"

definition and_then :: "'e + 'a \<Rightarrow> ('a \<Rightarrow> 'e + 'b) \<Rightarrow> 'e + 'b" where
  "and_then r f = (case r of Inl e \<Rightarrow> Inl e | Inr v \<Rightarrow> f v)"

definition py_or :: "json \<Rightarrow> json \<Rightarrow> json" where
  "py_or a b = (if truthy a then a else b)"

record prediction =
  pred_predictions :: "json list"
  pred_deployed_model_id :: string

record text_generation_response =
  tgr_text :: json                 \<comment> \<open>\<open>text\<close>; \<open>JNull\<close> is \<open>None\<close>\<close>
  tgr_prediction_response :: prediction
  tgr_is_blocked :: json
  tgr_safety_attributes :: "(json \<times> json) list"

text \<open>
  \<open>_parse_chat_prediction_response\<close>. The steps are in the order Python evaluates them:
  the prediction, its safety attributes at the candidate index, then the arguments of
  the constructor from left to right.
\<close>

definition safety_attributes_dict :: "json \<Rightarrow> py_error + (json \<times> json) list" where
  "safety_attributes_dict safety_attributes =
     and_then (dict_get safety_attributes ''categories'' JNull) (\<lambda>categories.
     and_then (dict_get safety_attributes ''scores'' JNull) (\<lambda>scores.
     and_then (py_iter (py_or categories (JList []))) (\<lambda>ks.
     and_then (py_iter (py_or scores (JList []))) (\<lambda>vs.
       py_dict (zip ks vs)))))"

definition parse_chat_prediction_response ::
  "prediction \<Rightarrow> int \<Rightarrow> int \<Rightarrow> py_error + text_generation_response" where
  "parse_chat_prediction_response prediction_response prediction_idx candidate_idx =
     and_then (case list_index (pred_predictions prediction_response) prediction_idx of
                 None \<Rightarrow> Inl (IndexError ''list index out of range'')
               | Some p \<Rightarrow> Inr p) (\<lambda>prediction.
     and_then (getitem prediction (StrKey ''safetyAttributes'')) (\<lambda>attributes_list.
     and_then (getitem attributes_list (IntKey candidate_idx)) (\<lambda>safety_attributes.
     and_then (dict_get prediction ''candidates'' JNull) (\<lambda>candidates.
     and_then (if truthy candidates then
                 and_then (getitem prediction (StrKey ''candidates'')) (\<lambda>cs.
                 and_then (getitem cs (IntKey candidate_idx)) (\<lambda>c.
                 getitem c (StrKey ''content'')))
               else Inr JNull) (\<lambda>text.
     and_then (dict_get safety_attributes ''blocked'' (JBool False)) (\<lambda>blocked.
     and_then (safety_attributes_dict safety_attributes) (\<lambda>attributes.
       Inr \<lparr> tgr_text = text,
             tgr_prediction_response = prediction_response,
             tgr_is_blocked = blocked,
             tgr_safety_attributes = attributes \<rparr>)))))))"

record chat_message =
  cm_content :: json     \<comment> \<open>the user's string, or the response text, which may be \<open>None\<close>\<close>
  cm_author :: string

definition USER_AUTHOR :: string where "USER_AUTHOR = ''user''"
definition MODEL_AUTHOR :: string where "MODEL_AUTHOR = ''bot''"

record chat_session =
  cs_context :: "string option"
  cs_examples :: "(string \<times> string) list option"
  cs_max_output_tokens :: "int option"
  cs_temperature :: "real option"
  cs_top_k :: "int option"
  cs_top_p :: "real option"
  cs_message_history :: "chat_message list"
  cs_stop_sequences :: "string list option"

definition chat_session_init ::
  "string option \<Rightarrow> (string \<times> string) list option \<Rightarrow> int option \<Rightarrow> real option \<Rightarrow> int option
     \<Rightarrow> real option \<Rightarrow> chat_message list option \<Rightarrow> string list option \<Rightarrow> chat_session" where
  "chat_session_init context examples max_output_tokens temperature top_k top_p message_history
       stop_sequences =
     \<lparr> cs_context = context, cs_examples = examples, cs_max_output_tokens = max_output_tokens,
       cs_temperature = temperature, cs_top_k = top_k, cs_top_p = top_p,
       cs_message_history = (case message_history of None \<Rightarrow> [] | Some h \<Rightarrow> h),
       cs_stop_sequences = stop_sequences \<rparr>"

text \<open>\<open>a or b\<close> and \<open>if a\<close> on an optional value whose own falsy values are given by \<open>t\<close>.\<close>

definition opt_truthy :: "('a \<Rightarrow> bool) \<Rightarrow> 'a option \<Rightarrow> bool" where
  "opt_truthy t a = (case a of None \<Rightarrow> False | Some x \<Rightarrow> t x)"

definition opt_or :: "('a \<Rightarrow> bool) \<Rightarrow> 'a option \<Rightarrow> 'a option \<Rightarrow> 'a option" where
  "opt_or t a b = (if opt_truthy t a then a else b)"

definition param_if :: "('a \<Rightarrow> bool) \<Rightarrow> string \<Rightarrow> ('a \<Rightarrow> json) \<Rightarrow> 'a option \<Rightarrow> (string \<times> json) list" where
  "param_if t k wrap a = (case a of None \<Rightarrow> [] | Some x \<Rightarrow> if t x then [(k, wrap x)] else [])"

record prediction_request =
  req_instance :: json
  req_parameters :: json

definition prepare_request ::
  "chat_session \<Rightarrow> string \<Rightarrow> int option \<Rightarrow> real option \<Rightarrow> int option \<Rightarrow> real option
     \<Rightarrow> string list option \<Rightarrow> prediction_request" where
  "prepare_request s message max_output_tokens temperature top_k top_p stop_sequences =
     (let max_output_tokens' = opt_or (\<lambda>n. n \<noteq> 0) max_output_tokens (cs_max_output_tokens s);
          temperature' = (case temperature of None \<Rightarrow> cs_temperature s | Some t \<Rightarrow> Some t);
          top_p' = opt_or (\<lambda>x. x \<noteq> 0) top_p (cs_top_p s);
          top_k' = opt_or (\<lambda>n. n \<noteq> 0) top_k (cs_top_k s);
          stop_sequences' = opt_or (\<lambda>l. l \<noteq> []) stop_sequences (cs_stop_sequences s);
          prediction_parameters =
            param_if (\<lambda>n. n \<noteq> 0) ''maxDecodeSteps'' (\<lambda>n. JNum (of_int n)) max_output_tokens'
            @ param_if (\<lambda>x. True) ''temperature'' JNum temperature'
            @ param_if (\<lambda>x. x \<noteq> 0) ''topP'' JNum top_p'
            @ param_if (\<lambda>n. n \<noteq> 0) ''topK'' (\<lambda>n. JNum (of_int n)) top_k'
            @ param_if (\<lambda>l. l \<noteq> []) ''stopSequences'' (\<lambda>l. JList (map JStr l)) stop_sequences';
          message_structs =
            map (\<lambda>past_message. JDict [(''author'', JStr (cm_author past_message)),
                                        (''content'', cm_content past_message)])
                (cs_message_history s)
            @ [JDict [(''author'', JStr USER_AUTHOR), (''content'', JStr message)]];
          prediction_instance =
            [(''messages'', JList message_structs)]
            @ param_if (\<lambda>c. c \<noteq> []) ''context'' JStr (cs_context s)
            @ param_if (\<lambda>l. l \<noteq> []) ''examples''
                (\<lambda>l. JList (map (\<lambda>example.
                        JDict [(''input'', JDict [(''content'', JStr (fst example))]),
                               (''output'', JDict [(''content'', JStr (snd example))])]) l))
                (cs_examples s)
      in \<lparr> req_instance = JDict prediction_instance, req_parameters = JDict prediction_parameters \<rparr>)"

text \<open>
  \<open>send_message\<close>. The endpoint's \<open>predict\<close> is the remote collaborator. The history is
  extended only after the response has been parsed.
\<close>

definition send_message ::
  "(json list \<Rightarrow> json \<Rightarrow> py_error + prediction) \<Rightarrow> chat_session \<Rightarrow> string \<Rightarrow> int option
     \<Rightarrow> real option \<Rightarrow> int option \<Rightarrow> real option \<Rightarrow> string list option
     \<Rightarrow> (py_error + text_generation_response) \<times> chat_session" where
  "send_message predict s message max_output_tokens temperature top_k top_p stop_sequences =
     (let prediction_request =
            prepare_request s message max_output_tokens temperature top_k top_p stop_sequences
      in case predict [req_instance prediction_request] (req_parameters prediction_request) of
           Inl e \<Rightarrow> (Inl e, s)
         | Inr prediction_response \<Rightarrow>
            (case parse_chat_prediction_response prediction_response 0 0 of
               Inl e \<Rightarrow> (Inl e, s)
             | Inr response_obj \<Rightarrow>
                (Inr response_obj,
                 s \<lparr> cs_message_history :=
                       cs_message_history s
                       @ [\<lparr> cm_content = JStr message, cm_author = USER_AUTHOR \<rparr>,
                          \<lparr> cm_content = tgr_text response_obj, cm_author = MODEL_AUTHOR \<rparr>] \<rparr>)))"

text \<open>
  \<open>send_message_streaming\<close> is a generator. The stream of prediction dictionaries is the
  list of what the transport yields, an exception ending it. The loop parses each
  dictionary and adds its text to the full text, which fails for a text that is not a
  string.
\<close>

fun stream_loop ::
  "(py_error + json) list \<Rightarrow> string \<Rightarrow> text_generation_response list
     \<Rightarrow> py_error option \<times> string \<times> text_generation_response list" where
  "stream_loop [] full_response_text yielded = (None, full_response_text, yielded)"
| "stream_loop (Inl e # rest) full_response_text yielded = (Some e, full_response_text, yielded)"
| "stream_loop (Inr prediction_dict # rest) full_response_text yielded =
     (case parse_chat_prediction_response
             \<lparr> pred_predictions = [prediction_dict], pred_deployed_model_id = [] \<rparr> 0 0 of
        Inl e \<Rightarrow> (Some e, full_response_text, yielded)
      | Inr text_generation_response \<Rightarrow>
         (case tgr_text text_generation_response of
            JStr t \<Rightarrow> stream_loop rest (full_response_text @ t) (yielded @ [text_generation_response])
          | _ \<Rightarrow> (Some (TypeError ''can only concatenate str''), full_response_text, yielded)))"

text \<open>
  The caller asks the generator for \<open>pulls\<close> items. Nothing runs before the first
  request; the history is extended when the caller asks once more after the last
  item, and not when the loop raised or the caller stopped earlier.
\<close>

definition send_message_streaming ::
  "(json \<Rightarrow> json \<Rightarrow> (py_error + json) list) \<Rightarrow> chat_session \<Rightarrow> string \<Rightarrow> int option
     \<Rightarrow> real option \<Rightarrow> int option \<Rightarrow> real option \<Rightarrow> nat
     \<Rightarrow> (text_generation_response list \<times> py_error option) \<times> chat_session" where
  "send_message_streaming stream s message max_output_tokens temperature top_k top_p pulls =
     (if pulls = 0 then (([], None), s)
      else
       (let prediction_request =
              prepare_request s message max_output_tokens temperature top_k top_p None;
            items = stream (req_instance prediction_request) (req_parameters prediction_request)
        in case stream_loop (take pulls items) [] [] of
             (Some e, full_response_text, yielded) \<Rightarrow> ((yielded, Some e), s)
           | (None, full_response_text, yielded) \<Rightarrow>
               if pulls \<le> length items then ((yielded, None), s)
               else ((yielded, None),
                     s \<lparr> cs_message_history :=
                           cs_message_history s
                           @ [\<lparr> cm_content = JStr message, cm_author = USER_AUTHOR \<rparr>,
                              \<lparr> cm_content = JStr full_response_text,
                                cm_author = MODEL_AUTHOR \<rparr>] \<rparr>)))"

subsection \<open>Concrete predictions and a concrete session\<close>

definition blocked_prediction :: "(string \<times> json) list \<Rightarrow> prediction" where
  "blocked_prediction extra =
     \<lparr> pred_predictions =
         [JDict ((''safetyAttributes'', JList [JDict [(''blocked'', JBool True)]]) # extra)],
       pred_deployed_model_id = ''1'' \<rparr>"

definition answer_prediction :: "string \<Rightarrow> prediction" where
  "answer_prediction t =
     \<lparr> pred_predictions =
         [JDict [(''safetyAttributes'',
                  JList [JDict [(''blocked'', JBool False),
                                (''categories'', JList [JStr ''Violent'']),
                                (''scores'', JList [JNum 0.1])]]),
                 (''candidates'', JList [JDict [(''author'', JStr ''1''), (''content'', JStr t)]])]],
       pred_deployed_model_id = ''1'' \<rparr>"

definition demo_session :: chat_session where
  "demo_session =
     chat_session_init (Some ''Be brief'') None (Some 128) None None None
       (Some [\<lparr> cm_content = JStr ''hi'', cm_author = ''user'' \<rparr>,
              \<lparr> cm_content = JStr ''hello'', cm_author = ''bot'' \<rparr>]) None"

fun is_output_parameter_read :: "event \<Rightarrow> bool" where
  "is_output_parameter_read (OutputParameterRead k) = True"
| "is_output_parameter_read e = False"

fun is_job_wait :: "event \<Rightarrow> bool" where
  "is_job_wait (JobWait n) = True"
| "is_job_wait e = False"

subsection \<open>A concrete registry and concrete jobs\<close>

definition demo_vertex_model :: vertex_model where
  "demo_vertex_model =
     \<lparr> vm_resource_name = ''projects/p/models/m'',
       vm_labels = [TUNING_BASE_MODEL_ID_LABEL_KEY \<mapsto> ''text-bison-001''],
       vm_deployed_models = [''projects/p/locations/us-central1/endpoints/e''] \<rparr>"

definition demo_unlabelled_model :: vertex_model where
  "demo_unlabelled_model =
     \<lparr> vm_resource_name = ''projects/p/models/u'',
       vm_labels = Map.empty,
       vm_deployed_models = [] \<rparr>"

definition demo_model_info :: model_info where
  "demo_model_info =
     \<lparr> mi_tuning_pipeline_uri = Some ''https://pipelines/tune'',
       mi_tuning_model_id = ''text-bison-001'',
       mi_interface_class = ''TextGenerationModel'',
       mi_publisher_model_resource = ''publishers/google/models/text-bison@001'' \<rparr>"

definition demo_services :: services where
  "demo_services =
     \<lparr> sv_fetch_model = (\<lambda>n. if n = ''projects/p/models/m'' then Inr demo_vertex_model
                              else if n = ''projects/p/models/u'' then Inr demo_unlabelled_model
                              else Inl (Raised ''NotFound'')),
       sv_deploy = (\<lambda>vm. Inl (Raised ''deploy'')),
       sv_get_model_info = (\<lambda>i c. Inr demo_model_info),
       sv_validate_launch_stage = (\<lambda>c r. None),
       sv_wait = (\<lambda>j. Inr j),
       sv_parse_resource_name = (\<lambda>n. Map.empty),
       sv_launch_tuning_job = (\<lambda>r. Inr \<lparr> job_name = ''tuning-job'', task_details = [] \<rparr>) \<rparr>"

definition demo_base_model :: language_model where
  "demo_base_model =
     \<lparr> lm_class = ''TextGenerationModel'',
       lm_model_id = ''publishers/google/models/text-bison@001'',
       lm_endpoint_name = ''publishers/google/models/text-bison@001'' \<rparr>"

definition demo_tuned_model :: language_model where
  "demo_tuned_model =
     \<lparr> lm_class = ''TextGenerationModel'',
       lm_model_id = ''publishers/google/models/text-bison@001'',
       lm_endpoint_name = ''projects/p/locations/us-central1/endpoints/e'' \<rparr>"

definition root_task :: "string \<Rightarrow> task_detail" where
  "root_task v = \<lparr> td_schema_title = ''system.Run'', td_metadata = [output_key \<mapsto> Some v] \<rparr>"

definition other_task :: task_detail where
  "other_task = \<lparr> td_schema_title = ''system.ContainerExecution'', td_metadata = Map.empty \<rparr>"

definition demo_job :: "task_detail list \<Rightarrow> pipeline_job" where
  "demo_job tasks = \<lparr> job_name = ''tuning-job'', task_details = tasks \<rparr>"

section \<open>Properties of the tuning job handle\<close>

lemma strip_no_surrounding_space:
  assumes "N \<noteq> []" "\<not> isspace (hd N)" "\<not> isspace (last N)"
  shows "strip N = N"
proof -
  have "dropWhile isspace N = N"
    using assms by (simp add: dropWhile_eq_self_iff)
  moreover have "dropWhile isspace (rev N) = rev N"
    using assms by (simp add: dropWhile_eq_self_iff hd_rev)
  ultimately show ?thesis by (simp add: strip_def)
qed

lemma get_tuned_model_cls_no_wait:
  "\<not> list_ex is_job_wait (snd (get_tuned_model_cls sv cls n))"
  by (auto simp: get_tuned_model_cls_def tuned_model_endpoint_def Let_def
      split: sum.splits option.splits list.splits prod.splits)

lemma get_tuned_model_cls_success:
  assumes "get_tuned_model_cls sv cls n = (Inr m, calls)"
  shows "\<exists>vm tid rest. sv_fetch_model sv n = Inr vm \<and> calls = ModelFetch n # rest
           \<and> vm_labels vm TUNING_BASE_MODEL_ID_LABEL_KEY = Some tid
           \<and> lm_model_id m = get_model_id_from_tuning_model_id tid
           \<and> (case vm_deployed_models vm of
                 [] \<Rightarrow> sv_deploy sv vm = Inr (lm_endpoint_name m)
               | d # _ \<Rightarrow> lm_endpoint_name m = d)"
  using assms
  by (auto simp: get_tuned_model_cls_def tuned_model_endpoint_def Let_def
      split: sum.splits option.splits list.splits prod.splits)

text \<open>
  A handle caches a model only in a call that found exactly one root task in the job it
  then holds: no call leads from a fresh handle to one that has both a cached model and
  a job with another number of root tasks.
\<close>

lemma get_tuned_model_cache_invariant:
  assumes "get_tuned_model sv h = (r, h', calls)"
    and "tj_model h \<noteq> None \<longrightarrow> length (root_pipeline_tasks (tj_job h)) = 1"
  shows "tj_model h' \<noteq> None \<longrightarrow> length (root_pipeline_tasks (tj_job h')) = 1"
  using assms
  by (auto simp: get_tuned_model_def Let_def
      split: option.splits sum.splits if_splits prod.splits)

lemma demo_wait: "sv_wait demo_services j = Inr j"
  by (simp add: demo_services_def)

lemma demo_loader:
  "get_tuned_model_cls demo_services ''TextGenerationModel'' ''projects/p/models/m'' =
     (Inr demo_tuned_model,
      [ModelFetch ''projects/p/models/m'',
       GetModelInfo ''publishers/google/models/text-bison@001''])"
  by (simp add: get_tuned_model_cls_def tuned_model_endpoint_def demo_services_def
      demo_vertex_model_def demo_model_info_def demo_tuned_model_def Let_def
      get_model_id_from_tuning_model_id_def rpartition_def)

lemma demo_loader_unlabelled:
  "get_tuned_model_cls demo_services ''TextGenerationModel'' ''projects/p/models/u'' =
     (Inl (ValueError ''The provided model projects/p/models/u does not have a base model ID.''),
      [ModelFetch ''projects/p/models/u''])"
  by (simp add: get_tuned_model_cls_def demo_services_def demo_unlabelled_model_def)

lemma demo_first_call:
  "get_tuned_model demo_services (tuning_job_init demo_base_model (demo_job (tasks @ [root_task v])))
   = (if list_ex (\<lambda>t. td_schema_title t = ''system.Run'') tasks
      then (Inl (RuntimeError ''Failed to get the model name from the tuning pipeline: tuning-job''),
            tuning_job_init demo_base_model (demo_job (tasks @ [root_task v])),
            [JobWait ''tuning-job''])
      else case get_tuned_model_cls demo_services ''TextGenerationModel'' (strip v) of
             (Inl e, calls) \<Rightarrow>
               (Inl e, tuning_job_init demo_base_model (demo_job (tasks @ [root_task v])),
                [JobWait ''tuning-job'', OutputParameterRead output_key] @ calls)
           | (Inr m, calls) \<Rightarrow>
               (Inr m,
                \<lparr> tj_base_model = demo_base_model, tj_job = demo_job (tasks @ [root_task v]),
                  tj_model = Some m \<rparr>,
                [JobWait ''tuning-job'', OutputParameterRead output_key] @ calls))"
  by (auto simp: get_tuned_model_def demo_wait root_pipeline_tasks_def tuning_job_init_def
      demo_job_def root_task_def demo_base_model_def Let_def list_ex_iff filter_empty_conv
      split: prod.splits sum.splits)

text \<open>
  C1. A handle that has not cached a model (the state the constructor builds and every
  failed call leaves; by \<open>get_tuned_model_cache_invariant\<close> a handle with a cached
  model holds a job with exactly one root task) waits for the job; when the wait returns and the
  refreshed job has a number of root tasks (execution schema title \<open>system.Run\<close>) other
  than one, the call raises the RuntimeError "Failed to get the model name from the tuning
  pipeline", the only event of the call is the wait, and no output parameter is read.
\<close>

theorem get_tuned_model_root_count_error:
  assumes "tj_model h = None" and "sv_wait sv (tj_job h) = Inr j"
    and "length (root_pipeline_tasks j) \<noteq> 1"
  shows "get_tuned_model sv h =
           (Inl (RuntimeError (''Failed to get the model name from the tuning pipeline: ''
                               @ job_name j)),
            h \<lparr> tj_job := j \<rparr>, [JobWait (job_name (tj_job h))])
         \<and> \<not> list_ex is_output_parameter_read (snd (snd (get_tuned_model sv h)))"
  using assms by (simp add: get_tuned_model_def)

theorem get_tuned_model_root_count_error_witness:
  "length (root_pipeline_tasks (demo_job [other_task])) = 0
   \<and> fst (get_tuned_model demo_services (tuning_job_init demo_base_model (demo_job [other_task])))
       = Inl (RuntimeError ''Failed to get the model name from the tuning pipeline: tuning-job'')
   \<and> length (root_pipeline_tasks (demo_job [root_task ''a'', other_task, root_task ''b''])) = 2
   \<and> get_tuned_model demo_services
        (tuning_job_init demo_base_model (demo_job [root_task ''a'', other_task, root_task ''b'']))
       = (Inl (RuntimeError ''Failed to get the model name from the tuning pipeline: tuning-job''),
          tuning_job_init demo_base_model (demo_job [root_task ''a'', other_task, root_task ''b'']),
          [JobWait ''tuning-job''])"
proof -
  let ?h0 = "tuning_job_init demo_base_model (demo_job [other_task])"
  let ?h2 = "tuning_job_init demo_base_model (demo_job [root_task ''a'', other_task, root_task ''b''])"
  have n0: "length (root_pipeline_tasks (demo_job [other_task])) = 0"
    by (simp add: root_pipeline_tasks_def demo_job_def other_task_def)
  have n2: "length (root_pipeline_tasks (demo_job [root_task ''a'', other_task, root_task ''b''])) = 2"
    by (simp add: root_pipeline_tasks_def demo_job_def other_task_def root_task_def)
  have c0: "tj_model ?h0 = None" and c2: "tj_model ?h2 = None"
    by (simp_all add: tuning_job_init_def)
  have w0: "sv_wait demo_services (tj_job ?h0) = Inr (demo_job [other_task])"
    by (simp add: demo_services_def tuning_job_init_def)
  have w2: "sv_wait demo_services (tj_job ?h2)
              = Inr (demo_job [root_task ''a'', other_task, root_task ''b''])"
    by (simp add: demo_services_def tuning_job_init_def)
  from n0 have m0: "length (root_pipeline_tasks (demo_job [other_task])) \<noteq> 1" by simp
  from n2 have m2: "length (root_pipeline_tasks (demo_job [root_task ''a'', other_task, root_task ''b''])) \<noteq> 1"
    by simp
  show ?thesis
    using n0 n2 get_tuned_model_root_count_error [OF c0 w0 m0]
      get_tuned_model_root_count_error [OF c2 w2 m2]
    by (simp add: tuning_job_init_def demo_job_def)
qed

text \<open>
  C2, as stated, fails. The name read from the output parameter is stripped of leading
  and trailing whitespace before the registry is asked, so a parameter value with a
  leading space makes the handle refer to the stripped name: the registry is asked for
  that name only, and here it knows no model under the value itself. And the returned
  handle is the one the class loader builds, which raises when the registry model has
  no base-model label.
\<close>

theorem get_tuned_model_exact_name_counterexample:
  "td_metadata (root_task '' projects/p/models/m'') output_key = Some (Some '' projects/p/models/m'')
   \<and> get_tuned_model demo_services
        (tuning_job_init demo_base_model (demo_job [root_task '' projects/p/models/m'']))
      = (Inr demo_tuned_model,
         \<lparr> tj_base_model = demo_base_model,
           tj_job = demo_job [root_task '' projects/p/models/m''],
           tj_model = Some demo_tuned_model \<rparr>,
         [JobWait ''tuning-job'', OutputParameterRead output_key,
          ModelFetch ''projects/p/models/m'',
          GetModelInfo ''publishers/google/models/text-bison@001''])
   \<and> sv_fetch_model demo_services '' projects/p/models/m'' = Inl (Raised ''NotFound'')
   \<and> fst (get_tuned_model demo_services
        (tuning_job_init demo_base_model (demo_job [root_task ''projects/p/models/u''])))
      = Inl (ValueError ''The provided model projects/p/models/u does not have a base model ID.'')"
proof -
  have f: "sv_fetch_model demo_services '' projects/p/models/m'' = Inl (Raised ''NotFound'')"
    by (simp add: demo_services_def)
  have s: "strip '' projects/p/models/m'' = ''projects/p/models/m''"
    and u: "strip ''projects/p/models/u'' = ''projects/p/models/u''"
    by (simp_all add: strip_def isspace_def)
  show ?thesis
    using demo_first_call [of "[]" "'' projects/p/models/m''"]
      demo_first_call [of "[]" "''projects/p/models/u''"]
    by (simp add: s u f demo_loader demo_loader_unlabelled root_task_def)
qed

text \<open>
  C2, amended. For a handle without a cached model whose job completes with exactly one
  root task carrying the string \<open>N\<close> under \<open>output:model_resource_name\<close>: when the class
  loader succeeds on \<open>N\<close> stripped of surrounding whitespace, the call returns the model
  the loader built and caches it; the registry was asked for the stripped name and the
  model's endpoint is that registry entry's first deployment (or the fresh deployment
  when there was none). The stripped name is \<open>N\<close> itself when \<open>N\<close> neither starts nor
  ends with whitespace.
\<close>

theorem get_tuned_model_one_root:
  assumes "tj_model h = None" and "sv_wait sv (tj_job h) = Inr j"
    and "root_pipeline_tasks j = [t]" and "td_metadata t output_key = Some (Some N)"
    and "get_tuned_model_cls sv (lm_class (tj_base_model h)) (strip N) = (Inr m, calls)"
  shows "get_tuned_model sv h =
           (Inr m, h \<lparr> tj_job := j, tj_model := Some m \<rparr>,
            [JobWait (job_name (tj_job h)), OutputParameterRead output_key] @ calls)
         \<and> (\<exists>vm rest. sv_fetch_model sv (strip N) = Inr vm \<and> calls = ModelFetch (strip N) # rest
               \<and> (case vm_deployed_models vm of
                     [] \<Rightarrow> sv_deploy sv vm = Inr (lm_endpoint_name m)
                   | d # _ \<Rightarrow> lm_endpoint_name m = d))
         \<and> (N \<noteq> [] \<and> \<not> isspace (hd N) \<and> \<not> isspace (last N) \<longrightarrow> strip N = N)"
proof -
  have "get_tuned_model sv h =
           (Inr m, h \<lparr> tj_job := j, tj_model := Some m \<rparr>,
            [JobWait (job_name (tj_job h)), OutputParameterRead output_key] @ calls)"
    using assms by (simp add: get_tuned_model_def Let_def)
  moreover have "\<exists>vm rest. sv_fetch_model sv (strip N) = Inr vm \<and> calls = ModelFetch (strip N) # rest
               \<and> (case vm_deployed_models vm of
                     [] \<Rightarrow> sv_deploy sv vm = Inr (lm_endpoint_name m)
                   | d # _ \<Rightarrow> lm_endpoint_name m = d)"
    using get_tuned_model_cls_success [OF assms(5)] by blast
  ultimately show ?thesis
    using strip_no_surrounding_space by blast
qed

theorem get_tuned_model_one_root_witness:
  "strip ''projects/p/models/m'' = ''projects/p/models/m''
   \<and> get_tuned_model demo_services
        (tuning_job_init demo_base_model (demo_job [other_task, root_task ''projects/p/models/m'']))
      = (Inr demo_tuned_model,
         \<lparr> tj_base_model = demo_base_model,
           tj_job = demo_job [other_task, root_task ''projects/p/models/m''],
           tj_model = Some demo_tuned_model \<rparr>,
         [JobWait ''tuning-job'', OutputParameterRead output_key,
          ModelFetch ''projects/p/models/m'',
          GetModelInfo ''publishers/google/models/text-bison@001''])
   \<and> sv_fetch_model demo_services ''projects/p/models/m'' = Inr demo_vertex_model
   \<and> lm_endpoint_name demo_tuned_model = hd (vm_deployed_models demo_vertex_model)"
proof -
  let ?j = "demo_job [other_task, root_task ''projects/p/models/m'']"
  let ?h = "tuning_job_init demo_base_model ?j"
  have s: "strip ''projects/p/models/m'' = ''projects/p/models/m''"
    by (simp add: strip_def isspace_def)
  have c: "tj_model ?h = None"
    by (simp add: tuning_job_init_def)
  have w: "sv_wait demo_services (tj_job ?h) = Inr ?j"
    by (simp add: demo_services_def tuning_job_init_def)
  have r: "root_pipeline_tasks ?j = [root_task ''projects/p/models/m'']"
    by (simp add: root_pipeline_tasks_def demo_job_def other_task_def root_task_def)
  have v: "td_metadata (root_task ''projects/p/models/m'') output_key
             = Some (Some ''projects/p/models/m'')"
    by (simp add: root_task_def)
  have l: "get_tuned_model_cls demo_services (lm_class (tj_base_model ?h))
             (strip ''projects/p/models/m'')
           = (Inr demo_tuned_model,
              [ModelFetch ''projects/p/models/m'',
               GetModelInfo ''publishers/google/models/text-bison@001''])"
    by (simp add: s demo_loader tuning_job_init_def demo_base_model_def)
  have f: "sv_fetch_model demo_services ''projects/p/models/m'' = Inr demo_vertex_model"
    by (simp add: demo_services_def)
  have e: "lm_endpoint_name demo_tuned_model = hd (vm_deployed_models demo_vertex_model)"
    by (simp add: demo_tuned_model_def demo_vertex_model_def)
  have n: "job_name (tj_job ?h) = ''tuning-job''"
    by (simp add: tuning_job_init_def demo_job_def)
  from get_tuned_model_one_root [OF c w r v l]
  have "get_tuned_model demo_services ?h =
          (Inr demo_tuned_model, ?h \<lparr> tj_job := ?j, tj_model := Some demo_tuned_model \<rparr>,
           [JobWait ''tuning-job'', OutputParameterRead output_key,
            ModelFetch ''projects/p/models/m'',
            GetModelInfo ''publishers/google/models/text-bison@001''])"
    by (simp only: n append.simps)
  with s f e show ?thesis
    by (simp add: tuning_job_init_def)
qed

lemma get_tuned_model_fresh_trace:
  assumes "tj_model h = None"
  shows "\<exists>rest. snd (snd (get_tuned_model sv h)) = JobWait (job_name (tj_job h)) # rest
                \<and> \<not> list_ex is_job_wait rest"
  using assms get_tuned_model_cls_no_wait [of sv "lm_class (tj_base_model h)"]
  apply (auto simp: get_tuned_model_def Let_def list_ex_iff
      split: option.splits sum.splits prod.splits)
   apply (metis snd_conv)
  apply (metis snd_conv)
  done

lemma get_tuned_model_success_caches:
  assumes "get_tuned_model sv h = (Inr m, h', calls)"
  shows "tj_model h' = Some m"
  using assms
  by (auto simp: get_tuned_model_def Let_def
      split: option.splits sum.splits if_splits prod.splits)

text \<open>
  C3. A call on a handle without a cached model waits for the job exactly once, first
  of all, whatever the call then does. When a call returns a model, the handle it leaves
  has cached that model, and the next call on it returns the same model, leaves the
  handle as it is and performs no call at all; when the first call started without a
  cached model, the two calls together contain exactly one wait. And the first call does
  return the model and cache it when the job completes with exactly one root task whose
  output parameter names a model that the class loader can load.
\<close>

theorem get_tuned_model_cached:
  "(tj_model h = None \<longrightarrow>
      (\<exists>rest. snd (snd (get_tuned_model sv h)) = JobWait (job_name (tj_job h)) # rest
              \<and> \<not> list_ex is_job_wait rest))
   \<and> (\<forall>m h' calls. get_tuned_model sv h = (Inr m, h', calls) \<longrightarrow>
          tj_model h' = Some m
          \<and> get_tuned_model sv h' = (Inr m, h', [])
          \<and> (tj_model h = None \<longrightarrow>
                length (filter is_job_wait (calls @ snd (snd (get_tuned_model sv h')))) = 1))
   \<and> (\<forall>j t N m calls.
          tj_model h = None \<and> sv_wait sv (tj_job h) = Inr j \<and> root_pipeline_tasks j = [t]
          \<and> td_metadata t output_key = Some (Some N)
          \<and> get_tuned_model_cls sv (lm_class (tj_base_model h)) (strip N) = (Inr m, calls) \<longrightarrow>
          get_tuned_model sv h =
            (Inr m, h \<lparr> tj_job := j, tj_model := Some m \<rparr>,
             JobWait (job_name (tj_job h)) # OutputParameterRead output_key # calls)
          \<and> get_tuned_model sv (h \<lparr> tj_job := j, tj_model := Some m \<rparr>) =
            (Inr m, h \<lparr> tj_job := j, tj_model := Some m \<rparr>, []))"
proof (intro conjI allI impI)
  assume "tj_model h = None"
  then show "\<exists>rest. snd (snd (get_tuned_model sv h)) = JobWait (job_name (tj_job h)) # rest
              \<and> \<not> list_ex is_job_wait rest"
    by (rule get_tuned_model_fresh_trace)
next
  fix m h' calls
  assume first: "get_tuned_model sv h = (Inr m, h', calls)"
  show cached: "tj_model h' = Some m"
    by (rule get_tuned_model_success_caches [OF first])
  show second: "get_tuned_model sv h' = (Inr m, h', [])"
    using cached by (simp add: get_tuned_model_def)
  assume fresh: "tj_model h = None"
  from get_tuned_model_fresh_trace [OF fresh, of sv] first
  obtain rest where "calls = JobWait (job_name (tj_job h)) # rest"
    and "\<not> list_ex is_job_wait rest"
    by auto
  then show "length (filter is_job_wait (calls @ snd (snd (get_tuned_model sv h')))) = 1"
    using second by (simp add: list_ex_iff filter_empty_conv)
next
  fix j t N m calls
  assume a: "tj_model h = None \<and> sv_wait sv (tj_job h) = Inr j \<and> root_pipeline_tasks j = [t]
          \<and> td_metadata t output_key = Some (Some N)
          \<and> get_tuned_model_cls sv (lm_class (tj_base_model h)) (strip N) = (Inr m, calls)"
  then show "get_tuned_model sv h =
            (Inr m, h \<lparr> tj_job := j, tj_model := Some m \<rparr>,
             JobWait (job_name (tj_job h)) # OutputParameterRead output_key # calls)"
    by (simp add: get_tuned_model_def Let_def)
  show "get_tuned_model sv (h \<lparr> tj_job := j, tj_model := Some m \<rparr>) =
            (Inr m, h \<lparr> tj_job := j, tj_model := Some m \<rparr>, [])"
    by (simp add: get_tuned_model_def)
qed

theorem get_tuned_model_cached_witness:
  "tj_model (tuning_job_init demo_base_model (demo_job [root_task ''projects/p/models/m''])) = None
   \<and> get_tuned_model demo_services
        (tuning_job_init demo_base_model (demo_job [root_task ''projects/p/models/m'']))
      = (Inr demo_tuned_model,
         \<lparr> tj_base_model = demo_base_model,
           tj_job = demo_job [root_task ''projects/p/models/m''],
           tj_model = Some demo_tuned_model \<rparr>,
         [JobWait ''tuning-job'', OutputParameterRead output_key,
          ModelFetch ''projects/p/models/m'',
          GetModelInfo ''publishers/google/models/text-bison@001''])
   \<and> get_tuned_model demo_services
        (fst (snd (get_tuned_model demo_services
           (tuning_job_init demo_base_model (demo_job [root_task ''projects/p/models/m''])))))
      = (Inr demo_tuned_model,
         \<lparr> tj_base_model = demo_base_model,
           tj_job = demo_job [root_task ''projects/p/models/m''],
           tj_model = Some demo_tuned_model \<rparr>, [])
   \<and> length (filter is_job_wait
        (snd (snd (get_tuned_model demo_services
           (tuning_job_init demo_base_model (demo_job [root_task ''projects/p/models/m'']))))
         @ snd (snd (get_tuned_model demo_services
           (fst (snd (get_tuned_model demo_services
             (tuning_job_init demo_base_model (demo_job [root_task ''projects/p/models/m''])))))))))
      = 1"
proof -
  let ?j = "demo_job [root_task ''projects/p/models/m'']"
  let ?h = "tuning_job_init demo_base_model ?j"
  let ?h' = "\<lparr> tj_base_model = demo_base_model, tj_job = ?j, tj_model = Some demo_tuned_model \<rparr>"
  let ?calls = "[ModelFetch ''projects/p/models/m'',
          GetModelInfo ''publishers/google/models/text-bison@001'']"
  have c: "tj_model ?h = None"
    by (simp add: tuning_job_init_def)
  have w: "sv_wait demo_services (tj_job ?h) = Inr ?j"
    by (simp add: demo_wait tuning_job_init_def)
  have r: "root_pipeline_tasks ?j = [root_task ''projects/p/models/m'']"
    by (simp add: root_pipeline_tasks_def demo_job_def root_task_def)
  have v: "td_metadata (root_task ''projects/p/models/m'') output_key
             = Some (Some ''projects/p/models/m'')"
    by (simp add: root_task_def)
  have l: "get_tuned_model_cls demo_services (lm_class (tj_base_model ?h))
             (strip ''projects/p/models/m'') = (Inr demo_tuned_model, ?calls)"
    by (simp add: demo_loader tuning_job_init_def demo_base_model_def strip_def isspace_def)
  have n: "job_name (tj_job ?h) = ''tuning-job''"
    by (simp add: tuning_job_init_def demo_job_def)
  have u: "?h \<lparr> tj_job := ?j, tj_model := Some demo_tuned_model \<rparr> = ?h'"
    by (simp add: tuning_job_init_def)
  note inst = get_tuned_model_cached [of ?h demo_services]
  from conjunct2 [OF conjunct2 [OF inst], rule_format,
      of ?j "root_task ''projects/p/models/m''" "''projects/p/models/m''" demo_tuned_model ?calls]
    c w r v l
  have both: "get_tuned_model demo_services ?h =
          (Inr demo_tuned_model, ?h \<lparr> tj_job := ?j, tj_model := Some demo_tuned_model \<rparr>,
           JobWait (job_name (tj_job ?h)) # OutputParameterRead output_key # ?calls)"
    by blast
  have first: "get_tuned_model demo_services ?h =
          (Inr demo_tuned_model, ?h', JobWait ''tuning-job'' # OutputParameterRead output_key # ?calls)"
    using both by (simp only: n u)
  from conjunct1 [OF conjunct2 [OF inst], rule_format, OF first]
  have second: "get_tuned_model demo_services ?h' = (Inr demo_tuned_model, ?h', [])"
    and once: "tj_model ?h = None \<longrightarrow> length (filter is_job_wait
        ((JobWait ''tuning-job'' # OutputParameterRead output_key # ?calls)
          @ snd (snd (get_tuned_model demo_services ?h')))) = 1"
    by blast+
  show ?thesis
    using c first second once by simp
qed

section \<open>Properties of the tuning submission\<close>

lemma evaluation_parameters_error:
  "evaluation_parameters sv es loc ps = Inl e \<Longrightarrow> is_argument_error e"
  by (auto simp: evaluation_parameters_def Let_def
      split: evaluation_data.splits if_splits option.splits tensorboard.splits)

lemma tune_model_internal_region:
  assumes "tuning_job_location \<notin> Some ` set TUNING_LOCATIONS
           \<or> tuned_model_location \<noteq> Some TUNED_MODEL_LOCATION"
  shows "tune_model_internal sv self data ps tuning_job_location tuned_model_location name =
           (Inl (ValueError (if tuning_job_location \<notin> Some ` set TUNING_LOCATIONS
                             then tuning_location_message else tuned_model_location_message)), [])"
  using assms by (auto simp: tune_model_internal_def)

text \<open>
  C4. When the tuning job location is not one of \<open>europe-west4\<close>, \<open>us-central1\<close>, or
  the tuned model location is not \<open>us-central1\<close>, \<open>_tune_model\<close> raises the ValueError
  of the failed location check and has made no call. \<open>tune_model\<close>, which ends in
  \<open>_tune_model\<close>, then never returns a job and makes no call either: it raises an error
  of its argument checks, which is that same ValueError when no evaluation specification
  is given (with one, an earlier check of the specification may raise first: ValueError,
  or TypeError or KeyError for a specification of the wrong shape).
\<close>

theorem tune_model_unsupported_region:
  assumes "tuning_job_location \<notin> Some ` set TUNING_LOCATIONS
           \<or> tuned_model_location \<noteq> Some TUNED_MODEL_LOCATION"
  shows "tune_model_internal sv self data ps tuning_job_location tuned_model_location name =
           (Inl (ValueError (if tuning_job_location \<notin> Some ` set TUNING_LOCATIONS
                             then tuning_location_message else tuned_model_location_message)), [])
       \<and> (\<exists>e. tune_model sv self data train_steps learning_rate learning_rate_multiplier
                 tuning_job_location tuned_model_location name spec default_context = (Inl e, [])
              \<and> is_argument_error e)
       \<and> (spec = None \<longrightarrow>
            tune_model sv self data train_steps learning_rate learning_rate_multiplier
                 tuning_job_location tuned_model_location name spec default_context
            = (Inl (ValueError (if tuning_job_location \<notin> Some ` set TUNING_LOCATIONS
                             then tuning_location_message else tuned_model_location_message)), []))"
proof (intro conjI impI)
  show "tune_model_internal sv self data ps tuning_job_location tuned_model_location name =
           (Inl (ValueError (if tuning_job_location \<notin> Some ` set TUNING_LOCATIONS
                             then tuning_location_message else tuned_model_location_message)), [])"
    by (rule tune_model_internal_region [OF assms])
next
  show "\<exists>e. tune_model sv self data train_steps learning_rate learning_rate_multiplier
                 tuning_job_location tuned_model_location name spec default_context = (Inl e, [])
              \<and> is_argument_error e"
    by (auto simp: tune_model_def Let_def tune_model_internal_region [OF assms]
        dest: evaluation_parameters_error split: option.splits sum.splits)
next
  assume "spec = None"
  then show "tune_model sv self data train_steps learning_rate learning_rate_multiplier
                 tuning_job_location tuned_model_location name spec default_context
            = (Inl (ValueError (if tuning_job_location \<notin> Some ` set TUNING_LOCATIONS
                             then tuning_location_message else tuned_model_location_message)), [])"
    by (simp add: tune_model_def Let_def tune_model_internal_region [OF assms])
qed

theorem tune_model_unsupported_region_witness:
  "Some ''asia-east1'' \<notin> Some ` set TUNING_LOCATIONS
   \<and> tune_model_internal demo_services demo_base_model (DataUri ''gs://bucket/data.jsonl'') []
        (Some ''asia-east1'') (Some ''us-central1'') None
      = (Inl (ValueError tuning_location_message), [])
   \<and> tune_model demo_services demo_base_model (DataUri ''gs://bucket/data.jsonl'') (Some 10) None
        None (Some ''asia-east1'') (Some ''us-central1'') None None None
      = (Inl (ValueError tuning_location_message), [])
   \<and> Some ''europe-west4'' \<noteq> Some TUNED_MODEL_LOCATION
   \<and> tune_model_internal demo_services demo_base_model (DataUri ''gs://bucket/data.jsonl'') []
        (Some ''europe-west4'') (Some ''europe-west4'') None
      = (Inl (ValueError tuned_model_location_message), [])"
proof -
  have a: "Some ''asia-east1'' \<notin> Some ` set TUNING_LOCATIONS"
    by (simp add: TUNING_LOCATIONS_def)
  have b: "Some ''europe-west4'' \<noteq> Some TUNED_MODEL_LOCATION"
    by (simp add: TUNED_MODEL_LOCATION_def)
  have c: "Some ''europe-west4'' \<in> Some ` set TUNING_LOCATIONS"
    by (simp add: TUNING_LOCATIONS_def)
  from a have a': "Some ''asia-east1'' \<notin> Some ` set TUNING_LOCATIONS
      \<or> Some ''us-central1'' \<noteq> Some TUNED_MODEL_LOCATION" by simp
  from b have b': "Some ''europe-west4'' \<notin> Some ` set TUNING_LOCATIONS
      \<or> Some ''europe-west4'' \<noteq> Some TUNED_MODEL_LOCATION" by simp
  show ?thesis
    using a b c
      tune_model_unsupported_region [OF a', of demo_services demo_base_model
        "DataUri ''gs://bucket/data.jsonl''" "[]" None "Some 10" None None None None]
      tune_model_unsupported_region [OF b', of demo_services demo_base_model
        "DataUri ''gs://bucket/data.jsonl''" "[]" None None None None None None]
    by simp
qed

section \<open>Properties of the reconciler\<close>

text \<open>
  C5. When the lookup finds a resource whose state is not \<open>RUNNING\<close> (\<open>ERROR\<close>, for
  one), \<open>ensure\<close> raises the precondition error that names the resource and asks for a
  different name; its only call is the lookup, so nothing is created.
\<close>

theorem ensure_not_running:
  assumes "get_persistent_resource rs name = Inr r" and "pr_state r \<noteq> RUNNING"
  shows "ensure rs name =
           (Inl (PreconditionError (''The existing cluster `'' @ name
                   @ ''` isn't running, please specify a different cluster_name.'')),
            [GetResource name])
         \<and> \<not> list_ex is_create (snd (ensure rs name))"
  using assms by (simp add: ensure_def check_persistent_resource_def not_running_message_def)

theorem ensure_not_running_witness:
  "pr_state \<lparr> pr_state = ERROR, pr_resource_pools = [] \<rparr> \<noteq> RUNNING
   \<and> ensure (backend (Inr \<lparr> pr_state = ERROR, pr_resource_pools = [] \<rparr>)
                      (Inr running_resource)) test_cluster
     = (Inl (PreconditionError
          (''The existing cluster `projects/test-project/locations/us-central1/''
           @ ''persistentResources/test-cluster` isn't running, ''
           @ ''please specify a different cluster_name.'')),
        [GetResource test_cluster])"
proof -
  let ?r = "\<lparr> pr_state = ERROR, pr_resource_pools = [] \<rparr>"
  let ?rs = "backend (Inr ?r) (Inr running_resource)"
  have g: "get_persistent_resource ?rs test_cluster = Inr ?r"
    by (simp add: backend_def)
  have n: "pr_state ?r \<noteq> RUNNING"
    by simp
  show ?thesis
    using n ensure_not_running [OF g n] by (simp add: test_cluster_def)
qed

text \<open>
  C6. When the lookup raises a not-found condition, \<open>ensure\<close> makes exactly one
  creation call, after the lookup, and the resource it asks for has the default shape:
  a single pool with one replica, machine type \<open>n1-standard-4\<close>, boot disk type
  \<open>pd-ssd\<close> and a boot disk of 100 GB.
\<close>

theorem ensure_not_found_creates_default:
  assumes "get_persistent_resource rs name = Inl (NotFound m)"
  shows "snd (ensure rs name) =
           [GetResource name,
            CreateResource \<lparr> cr_name = name, cr_resource_pools = default_resource_pools \<rparr>]
         \<and> length (filter is_create (snd (ensure rs name))) = 1
         \<and> default_resource_pools =
             [\<lparr> machine_type = ''n1-standard-4'', replica_count = 1,
                boot_disk_type = ''pd-ssd'', boot_disk_size_gb = 100 \<rparr>]"
  using assms
  by (simp add: ensure_def check_persistent_resource_def create_persistent_resource_def
      default_resource_pools_def default_resource_pool_def Let_def split: sum.splits)

theorem ensure_not_found_creates_default_witness:
  "ensure (backend (Inl (NotFound ''404'')) (Inr running_resource)) test_cluster
     = (Inr (),
        [GetResource test_cluster,
         CreateResource \<lparr> cr_name = test_cluster, cr_resource_pools = default_resource_pools \<rparr>])"
proof -
  let ?rs = "backend (Inl (NotFound ''404'')) (Inr running_resource)"
  have g: "get_persistent_resource ?rs test_cluster = Inl (NotFound ''404'')"
    by (simp add: backend_def)
  have "fst (ensure ?rs test_cluster) = Inr ()"
    by (simp add: ensure_def check_persistent_resource_def create_persistent_resource_def
        backend_def Let_def)
  with ensure_not_found_creates_default [OF g] show ?thesis
    by (simp add: prod_eq_iff)
qed

text \<open>
  C7. When the remote creation call raises an error, \<open>create_persistent_resource\<close>
  raises a provisioning error whose cause is that error; and so does \<open>ensure\<close> when the
  lookup found nothing. The error of the creation call is never turned into a normal
  return.
\<close>

theorem create_failure_wrapped:
  assumes "create_resource rs \<lparr> cr_name = name, cr_resource_pools = default_resource_pools \<rparr>
             = Inl e"
  shows "fst (create_persistent_resource rs name)
           = Inl (ProvisioningError ''Failed in cluster creation due to: '' e)
         \<and> (\<forall>m. get_persistent_resource rs name = Inl (NotFound m)
               \<longrightarrow> ensure rs name
                     = (Inl (ProvisioningError ''Failed in cluster creation due to: '' e),
                        [GetResource name,
                         CreateResource \<lparr> cr_name = name,
                                           cr_resource_pools = default_resource_pools \<rparr>]))"
  using assms
  by (auto simp: ensure_def check_persistent_resource_def create_persistent_resource_def Let_def)

theorem create_failure_wrapped_witness:
  "fst (create_persistent_resource
          (backend (Inl (NotFound ''404'')) (Inl (TransportError ''quota exceeded''))) test_cluster)
     = Inl (ProvisioningError ''Failed in cluster creation due to: '' (TransportError ''quota exceeded''))
   \<and> ensure (backend (Inl (NotFound ''404'')) (Inl (TransportError ''quota exceeded''))) test_cluster
     = (Inl (ProvisioningError ''Failed in cluster creation due to: ''
               (TransportError ''quota exceeded'')),
        [GetResource test_cluster,
         CreateResource \<lparr> cr_name = test_cluster, cr_resource_pools = default_resource_pools \<rparr>])"
proof -
  let ?rs = "backend (Inl (NotFound ''404'')) (Inl (TransportError ''quota exceeded''))"
  have c: "create_resource ?rs
             \<lparr> cr_name = test_cluster, cr_resource_pools = default_resource_pools \<rparr>
           = Inl (TransportError ''quota exceeded'')"
    by (simp add: backend_def)
  have g: "get_persistent_resource ?rs test_cluster = Inl (NotFound ''404'')"
    by (simp add: backend_def)
  show ?thesis
    using create_failure_wrapped [OF c] g by simp
qed

text \<open>
  C8. When the lookup raises an error that is not a not-found condition, \<open>ensure\<close>
  raises that very error, and its only call is the lookup: nothing is created.
\<close>

theorem ensure_lookup_error_propagates:
  assumes "get_persistent_resource rs name = Inl e" and "\<not> is_not_found e"
  shows "ensure rs name = (Inl e, [GetResource name])
         \<and> \<not> list_ex is_create (snd (ensure rs name))"
  using assms by (simp add: ensure_def check_persistent_resource_def)

theorem ensure_lookup_error_propagates_witness:
  "\<not> is_not_found (TransportError ''permission denied'')
   \<and> ensure (backend (Inl (TransportError ''permission denied'')) (Inr running_resource))
        test_cluster
     = (Inl (TransportError ''permission denied''), [GetResource test_cluster])"
proof -
  let ?rs = "backend (Inl (TransportError ''permission denied'')) (Inr running_resource)"
  have g: "get_persistent_resource ?rs test_cluster = Inl (TransportError ''permission denied'')"
    by (simp add: backend_def)
  have n: "\<not> is_not_found (TransportError ''permission denied'')"
    by simp
  show ?thesis
    using n ensure_lookup_error_propagates [OF g n] by simp
qed

section \<open>Properties of the chat session\<close>

lemma blocked_safety: "safety_attributes_dict (JDict [(''blocked'', JBool True)]) = Inr []"
  by (simp add: safety_attributes_dict_def and_then_def py_or_def py_dict_def)

lemma parse_answer:
  "parse_chat_prediction_response (answer_prediction t) 0 0 =
     Inr \<lparr> tgr_text = JStr t, tgr_prediction_response = answer_prediction t,
           tgr_is_blocked = JBool False,
           tgr_safety_attributes = [(JStr ''Violent'', JNum 0.1)] \<rparr>"
  by (simp add: parse_chat_prediction_response_def and_then_def list_index_def
      answer_prediction_def safety_attributes_dict_def py_or_def py_dict_def)

text \<open>
  C9, as stated, fails. The parser reads the safety attributes of the prediction before
  it looks at the candidates, so a prediction without candidates and without safety
  attributes raises a KeyError instead of giving a response with no text.
\<close>

theorem parse_no_candidates_counterexample:
  "list_index (pred_predictions \<lparr> pred_predictions = [JDict []], pred_deployed_model_id = [] \<rparr>) 0
     = Some (JDict [])
   \<and> map_of ([] :: (string \<times> json) list) ''candidates'' = None
   \<and> parse_chat_prediction_response
        \<lparr> pred_predictions = [JDict []], pred_deployed_model_id = [] \<rparr> 0 0
      = Inl (KeyError ''safetyAttributes'')"
  by (simp add: parse_chat_prediction_response_def and_then_def list_index_def)

text \<open>
  C9, amended. For a selected prediction that is a dictionary whose \<open>candidates\<close>
  entry is absent or falsy (an empty list, for one) and whose \<open>safetyAttributes\<close> have
  at the candidate index a dictionary from which the safety attributes can be built,
  the parser returns a response whose text is \<open>None\<close>; the absence of candidates is
  reported nowhere in the response, whose other fields come from the safety attributes
  alone, and absent and empty candidates give the same response.
\<close>

theorem parse_no_candidates:
  assumes "list_index (pred_predictions prediction_response) prediction_idx = Some (JDict kvs)"
    and "\<not> truthy (case map_of kvs ''candidates'' of None \<Rightarrow> JNull | Some v \<Rightarrow> v)"
    and "map_of kvs ''safetyAttributes'' = Some attributes_list"
    and "getitem attributes_list (IntKey candidate_idx) = Inr (JDict sa)"
    and "safety_attributes_dict (JDict sa) = Inr attributes"
  shows "parse_chat_prediction_response prediction_response prediction_idx candidate_idx =
           Inr \<lparr> tgr_text = JNull,
                 tgr_prediction_response = prediction_response,
                 tgr_is_blocked = (case map_of sa ''blocked'' of None \<Rightarrow> JBool False | Some b \<Rightarrow> b),
                 tgr_safety_attributes = attributes \<rparr>"
  using assms by (simp add: parse_chat_prediction_response_def and_then_def)

theorem parse_no_candidates_witness:
  "parse_chat_prediction_response (blocked_prediction []) 0 0 =
     Inr \<lparr> tgr_text = JNull, tgr_prediction_response = blocked_prediction [],
           tgr_is_blocked = JBool True, tgr_safety_attributes = [] \<rparr>
   \<and> parse_chat_prediction_response (blocked_prediction [(''candidates'', JList [])]) 0 0 =
     Inr \<lparr> tgr_text = JNull,
           tgr_prediction_response = blocked_prediction [(''candidates'', JList [])],
           tgr_is_blocked = JBool True, tgr_safety_attributes = [] \<rparr>"
proof -
  let ?sa = "[(''blocked'', JBool True)]"
  let ?al = "JList [JDict ?sa]"
  have p: "list_index (pred_predictions (blocked_prediction extra)) 0
             = Some (JDict ((''safetyAttributes'', ?al) # extra))" for extra
    by (simp add: blocked_prediction_def list_index_def)
  have c0: "\<not> truthy (case map_of [(''safetyAttributes'', ?al)] ''candidates'' of
                         None \<Rightarrow> JNull | Some v \<Rightarrow> v)"
    by simp
  have c1: "\<not> truthy (case map_of [(''safetyAttributes'', ?al), (''candidates'', JList [])]
                               ''candidates'' of None \<Rightarrow> JNull | Some v \<Rightarrow> v)"
    by simp
  have a0: "map_of [(''safetyAttributes'', ?al)] ''safetyAttributes'' = Some ?al"
    by simp
  have a1: "map_of [(''safetyAttributes'', ?al), (''candidates'', JList [])] ''safetyAttributes''
              = Some ?al"
    by simp
  have g: "getitem ?al (IntKey 0) = Inr (JDict ?sa)"
    by (simp add: list_index_def)
  show ?thesis
    using parse_no_candidates [OF p c0 a0 g blocked_safety]
      parse_no_candidates [OF p c1 a1 g blocked_safety]
    by simp
qed

text \<open>
  C10. A \<open>send_message\<close> call that returns a response leaves a history that is the
  history before the call followed by exactly two entries: the caller's message with
  author \<open>user\<close>, then the text of the response with author \<open>bot\<close>. And after any
  call of \<open>send_message\<close> or \<open>send_message_streaming\<close>, whether it returns or raises,
  the entries that were in the history before are still its first entries, unchanged.
\<close>

theorem send_message_appends:
  assumes "send_message predict s message max_output_tokens temperature top_k top_p stop_sequences
             = (Inr response_obj, s')"
  shows "cs_message_history s' =
           cs_message_history s
           @ [\<lparr> cm_content = JStr message, cm_author = ''user'' \<rparr>,
              \<lparr> cm_content = tgr_text response_obj, cm_author = ''bot'' \<rparr>]
       \<and> (\<forall>predict' m a b c d e.
             take (length (cs_message_history s))
               (cs_message_history (snd (send_message predict' s m a b c d e)))
             = cs_message_history s)
       \<and> (\<forall>stream m a b c d pulls.
             take (length (cs_message_history s))
               (cs_message_history (snd (send_message_streaming stream s m a b c d pulls)))
             = cs_message_history s)"
proof (intro conjI allI)
  show "cs_message_history s' =
           cs_message_history s
           @ [\<lparr> cm_content = JStr message, cm_author = ''user'' \<rparr>,
              \<lparr> cm_content = tgr_text response_obj, cm_author = ''bot'' \<rparr>]"
    using assms
    by (auto simp: send_message_def Let_def USER_AUTHOR_def MODEL_AUTHOR_def split: sum.splits)
next
  fix predict' m a b c d e
  show "take (length (cs_message_history s))
               (cs_message_history (snd (send_message predict' s m a b c d e)))
             = cs_message_history s"
    by (simp add: send_message_def Let_def split: sum.splits)
next
  fix stream m a b c d pulls
  show "take (length (cs_message_history s))
               (cs_message_history (snd (send_message_streaming stream s m a b c d pulls)))
             = cs_message_history s"
    by (simp add: send_message_streaming_def Let_def split: prod.splits option.splits)
qed

theorem send_message_appends_witness:
  "cs_message_history
     (snd (send_message (\<lambda>instances parameters. Inr (answer_prediction ''fine'')) demo_session
             ''how are you'' None None None None None))
   = [\<lparr> cm_content = JStr ''hi'', cm_author = ''user'' \<rparr>,
      \<lparr> cm_content = JStr ''hello'', cm_author = ''bot'' \<rparr>,
      \<lparr> cm_content = JStr ''how are you'', cm_author = ''user'' \<rparr>,
      \<lparr> cm_content = JStr ''fine'', cm_author = ''bot'' \<rparr>]"
proof -
  let ?predict = "\<lambda>instances parameters. Inr (answer_prediction ''fine'') :: py_error + prediction"
  let ?r = "\<lparr> tgr_text = JStr ''fine'', tgr_prediction_response = answer_prediction ''fine'',
           tgr_is_blocked = JBool False,
           tgr_safety_attributes = [(JStr ''Violent'', JNum 0.1)] \<rparr>"
  obtain s' where s': "send_message ?predict demo_session ''how are you'' None None None None None
                 = (Inr ?r, s')"
    by (simp add: send_message_def Let_def parse_answer)
  have h: "cs_message_history demo_session =
             [\<lparr> cm_content = JStr ''hi'', cm_author = ''user'' \<rparr>,
              \<lparr> cm_content = JStr ''hello'', cm_author = ''bot'' \<rparr>]"
    by (simp add: demo_session_def chat_session_init_def)
  show ?thesis
    using send_message_appends [OF s'] s' h by simp
qed

end
